theory Spec2Isabelle
  imports Main "HOL-Library.Sublist"
begin

section \<open>Validation of raw session directories (beneuro\_data/data\_validation.py)\<close>

text \<open>
  The module checks that a session directory follows the naming convention of the
  acquisition pipeline. Its functions read the file system through \<^verbatim>\<open>pathlib\<close>, raise
  exceptions and emit warnings. Here the directory tree is a value, an exception is the
  \<open>Inl\<close> branch of a sum and the warnings are a list returned beside the result.

  Python strings are lists of characters. A \<^typ>\<open>char\<close> is one of the first 256 code points;
  among those the only characters that \<^verbatim>\<open>\d\<close> matches and \<^verbatim>\<open>int\<close> reads are the ASCII digits.
\<close>

subsection \<open>Paths and the directory tree\<close>

text \<open>
  A \<^verbatim>\<open>Path\<close> is the list of its components; \<^verbatim>\<open>p / name\<close> appends one, \<^verbatim>\<open>p.name\<close> is
  the last one (the empty string when there is none), \<^verbatim>\<open>p.parent\<close> drops it and
  \<^verbatim>\<open>q.is_relative_to(p)\<close> says that the components of \<open>p\<close> start those of \<open>q\<close>.
\<close>

type_synonym path = "string list"

definition name :: "path \<Rightarrow> string" where
  "name p = (if p = [] then [] else last p)"

definition parent :: "path \<Rightarrow> path" where
  "parent p = butlast p"

definition is_relative_to :: "path \<Rightarrow> path \<Rightarrow> bool" where
  "is_relative_to q p = prefix p q"

text \<open>
  What a path denotes on disk is a file or a directory with its entries, in the order in
  which the operating system lists them. \<open>None\<close> stands for a path that does not exist.
\<close>

datatype node = File | Dir "(string \<times> node) list"

definition entries :: "node option \<Rightarrow> (string \<times> node) list" where
  "entries d = (case d of Some (Dir es) \<Rightarrow> es | _ \<Rightarrow> [])"

definition is_dir :: "node \<Rightarrow> bool" where
  "is_dir n = (case n of Dir _ \<Rightarrow> True | File \<Rightarrow> False)"

definition is_file :: "node \<Rightarrow> bool" where
  "is_file n = (case n of File \<Rightarrow> True | Dir _ \<Rightarrow> False)"

text \<open>\<^verbatim>\<open>(p / name)\<close> on disk: the first entry of that name, when \<open>p\<close> is a directory.\<close>

definition child_node :: "node option \<Rightarrow> string \<Rightarrow> node option" where
  "child_node d n = map_of (entries d) n"

subsection \<open>Exceptions and warnings\<close>

text \<open>
  One constructor of \<open>message\<close> for each message template of the module, with the values
  its f-string interpolates.
\<close>

datatype message =
    Does_not_match_expected_format string string
  | Session_folder_does_not_exist path
  | Folder_name_has_to_start_with_subject_name string string
  | Folder_name_has_to_have_an_underscore string
  | Filename_does_not_match_PyControl string path
  | Expected_files_with_extension nat string nat
  | More_than_one_py_file path
  | No_py_file_found path
  | Not_in_any_known_recording_folder path
  | Folder_name_does_not_match_expected string string
  | Only_folders_are_allowed
  | Probe_folder_name_mismatch path
  | Probe_files_mismatch path
  | Could_not_extract_recording_ID string
  | No_video_files_found path
  | Video_filename_does_not_start_with string path
  | Could_not_find_metadata_csv path
  | Unexpected_files_in_video_folder path
  | Unexpected_location string path path
  | No_such_file_or_directory path

datatype error =
    FileNotFoundError message
  | ValueError message
  | WrongNumberOfFilesError message
  | IndexError
  | NotADirectoryError path
  | Re_error string

datatype warning =
    No_PyControl_task_folder path
  | More_than_one_recording path
  | No_video_folder path

subsection \<open>Characters and the fixed patterns\<close>

definition is_digit :: "char \<Rightarrow> bool" where
  "is_digit c = (c \<in> set ''0123456789'')"

definition newline :: char where
  "newline = CHR 0x0A"

definition startswith :: "string \<Rightarrow> string \<Rightarrow> bool" where
  "startswith s p = prefix p s"

definition endswith :: "string \<Rightarrow> string \<Rightarrow> bool" where
  "endswith s p = suffix p s"

subsection \<open>extract\_gid\<close>

text \<open>
  \<^verbatim>\<open>re.search(r"_g(\d)$", folder_name)\<close> tries every start position from the left. At a
  position the pattern matches when an underscore, a \<open>g\<close> and one digit stand there and
  the string ends after them, or only a final newline follows (\<^verbatim>\<open>$\<close> also matches
  before a newline that ends the string). \<^verbatim>\<open>group(0)\<close> is the three matched characters.
\<close>

definition gid_match_here :: "string \<Rightarrow> bool" where
  "gid_match_here s =
     (case s of
        [a, b, d] \<Rightarrow> a = CHR ''_'' \<and> b = CHR ''g'' \<and> is_digit d
      | [a, b, d, e] \<Rightarrow> a = CHR ''_'' \<and> b = CHR ''g'' \<and> is_digit d \<and> e = newline
      | _ \<Rightarrow> False)"

fun gid_search :: "string \<Rightarrow> string option" where
  "gid_search [] = None"
| "gid_search (c # cs) =
     (if gid_match_here (c # cs) then Some (take 3 (c # cs)) else gid_search cs)"

definition extract_gid :: "string \<Rightarrow> error + string" where
  "extract_gid folder_name =
     (case gid_search folder_name of
        None \<Rightarrow> Inl (ValueError (Could_not_extract_recording_ID folder_name))
      | Some group0 \<Rightarrow> Inr (drop 1 group0))"

subsection \<open>validate\_date\_format\<close>

text \<open>
  \<^verbatim>\<open>datetime.strptime(s, "%Y_%m_%d_%H_%M")\<close> compiles the format to the regular expression
  \<^verbatim>\<open>(?P<Y>\d\d\d\d)_(?P<m>1[0-2]|0[1-9]|[1-9])_(?P<d>3[0-1]|[1-2]\d|0[1-9]|[1-9]| [1-9])_(?P<H>2[0-3]|[0-1]\d|\d)_(?P<M>[0-5]\d|\d)\<close>,
  matches it at the start of the string and refuses the string when characters remain
  after the match. A matcher returns the ways a piece of the pattern can match at the
  start of a string, each with the rest of the string, in the order in which the
  backtracking engine tries them; the match found is the first of the whole sequence.
\<close>

type_synonym matcher = "string \<Rightarrow> (string \<times> string) list"

definition one :: "string \<Rightarrow> matcher" where
  "one cls s = (case s of c # r \<Rightarrow> if c \<in> set cls then [([c], r)] else [] | [] \<Rightarrow> [])"

definition two :: "string \<Rightarrow> string \<Rightarrow> matcher" where
  "two cls1 cls2 s =
     (case s of
        a # b # r \<Rightarrow> if a \<in> set cls1 \<and> b \<in> set cls2 then [([a, b], r)] else []
      | _ \<Rightarrow> [])"

definition rx_Y :: matcher where
  "rx_Y s =
     (case s of
        a # b # c # d # r \<Rightarrow>
          if is_digit a \<and> is_digit b \<and> is_digit c \<and> is_digit d then [([a, b, c, d], r)] else []
      | _ \<Rightarrow> [])"

definition rx_m :: matcher where
  "rx_m s = two ''1'' ''012'' s @ two ''0'' ''123456789'' s @ one ''123456789'' s"

definition rx_d :: matcher where
  "rx_d s = two ''3'' ''01'' s @ two ''12'' ''0123456789'' s @ two ''0'' ''123456789'' s
              @ one ''123456789'' s @ two '' '' ''123456789'' s"

definition rx_H :: matcher where
  "rx_H s = two ''2'' ''0123'' s @ two ''01'' ''0123456789'' s @ one ''0123456789'' s"

definition rx_M :: matcher where
  "rx_M s = two ''012345'' ''0123456789'' s @ one ''0123456789'' s"

definition format_regex :: "string \<Rightarrow> ((string \<times> string \<times> string \<times> string \<times> string) \<times> string) list" where
  "format_regex s =
     [((Y, m, d, H, M), r9).
        (Y, r1) \<leftarrow> rx_Y s, (u1, r2) \<leftarrow> one ''_'' r1,
        (m, r3) \<leftarrow> rx_m r2, (u2, r4) \<leftarrow> one ''_'' r3,
        (d, r5) \<leftarrow> rx_d r4, (u3, r6) \<leftarrow> one ''_'' r5,
        (H, r7) \<leftarrow> rx_H r6, (u4, r8) \<leftarrow> one ''_'' r7,
        (M, r9) \<leftarrow> rx_M r8]"

text \<open>\<^verbatim>\<open>int\<close> on a matched group: decimal digits, after the blank a day may start with.\<close>

definition digit_value :: "char \<Rightarrow> nat" where
  "digit_value c = of_char c - 48"

definition int_of_group :: "string \<Rightarrow> nat" where
  "int_of_group g = foldl (\<lambda>acc c. 10 * acc + digit_value c) 0 (dropWhile (\<lambda>c. c = CHR '' '') g)"

record datetime =
  year :: nat
  month :: nat
  day :: nat
  hour :: nat
  minute :: nat

definition is_leap :: "nat \<Rightarrow> bool" where
  "is_leap y = (y mod 4 = 0 \<and> (y mod 100 \<noteq> 0 \<or> y mod 400 = 0))"

definition days_in_month :: "nat \<Rightarrow> nat \<Rightarrow> nat" where
  "days_in_month y m =
     (if m = 2 then (if is_leap y then 29 else 28)
      else if m \<in> {4, 6, 9, 11} then 30 else 31)"

text \<open>
  \<open>strptime\<close> is \<open>None\<close> where Python raises \<^verbatim>\<open>ValueError\<close>: no match, unconverted data,
  or a date that \<^verbatim>\<open>datetime\<close> refuses (year 0, a day the month does not have).
\<close>

definition strptime :: "string \<Rightarrow> datetime option" where
  "strptime data_string =
     (case format_regex data_string of
        [] \<Rightarrow> None
      | ((Y, m, d, H, M), rest) # _ \<Rightarrow>
          if rest \<noteq> [] then None
          else
            let y = int_of_group Y; mo = int_of_group m; dd = int_of_group d in
            if 1 \<le> y \<and> y \<le> 9999 \<and> 1 \<le> mo \<and> mo \<le> 12 \<and> 1 \<le> dd \<and> dd \<le> days_in_month y mo
            then Some \<lparr>year = y, month = mo, day = dd,
                       hour = int_of_group H, minute = int_of_group M\<rparr>
            else None)"

text \<open>
  \<^verbatim>\<open>strftime\<close> with the same format. The fields \<^verbatim>\<open>%m %d %H %M\<close> are two digits; \<^verbatim>\<open>%Y\<close> is
  the year as the C library of Linux prints it, in decimal without padding.
\<close>

definition digit_char :: "nat \<Rightarrow> char" where
  "digit_char n = char_of (48 + n mod 10)"

fun decimal :: "nat \<Rightarrow> string" where
  "decimal n = (if n < 10 then [digit_char n] else decimal (n div 10) @ [digit_char n])"

declare decimal.simps [simp del]

definition two_digits :: "nat \<Rightarrow> string" where
  "two_digits n = [digit_char (n div 10), digit_char n]"

definition strftime :: "datetime \<Rightarrow> string" where
  "strftime t = decimal (year t) @ ''_'' @ two_digits (month t) @ ''_'' @ two_digits (day t)
                  @ ''_'' @ two_digits (hour t) @ ''_'' @ two_digits (minute t)"

definition EXPECTED_DATE_FORMAT :: string where
  "EXPECTED_DATE_FORMAT = ''%Y_%m_%d_%H_%M''"

definition validate_date_format :: "string \<Rightarrow> error + bool" where
  "validate_date_format extracted_date_str =
     (case strptime extracted_date_str of
        None \<Rightarrow>
          Inl (ValueError (Does_not_match_expected_format extracted_date_str EXPECTED_DATE_FORMAT))
      | Some t \<Rightarrow>
          let correct_str = strftime t in
          if extracted_date_str \<noteq> correct_str
          then Inl (ValueError (Does_not_match_expected_format extracted_date_str correct_str))
          else Inr True)"

subsection \<open>validate\_session\_path\<close>

text \<open>
  The function takes the session's path and what the path denotes on disk.
  \<^verbatim>\<open>folder_name[len(subject_name)]\<close> raises \<^verbatim>\<open>IndexError\<close> when the folder name is not longer
  than the subject name.
\<close>

definition validate_session_path :: "path \<Rightarrow> node option \<Rightarrow> string \<Rightarrow> error + bool" where
  "validate_session_path session_path on_disk subject_name =
     (let folder_name = name session_path in
      if on_disk = None then Inl (FileNotFoundError (Session_folder_does_not_exist session_path))
      else if \<not> startswith folder_name subject_name
      then Inl (ValueError (Folder_name_has_to_start_with_subject_name folder_name subject_name))
      else if length folder_name \<le> length subject_name then Inl IndexError
      else if folder_name ! length subject_name \<noteq> CHR ''_''
      then Inl (ValueError (Folder_name_has_to_have_an_underscore folder_name))
      else
        let extracted_date_str = drop (length subject_name + 1) folder_name in
        case validate_date_format extracted_date_str of
          Inl e \<Rightarrow> Inl e
        | Inr _ \<Rightarrow> Inr True)"

subsection \<open>Globbing\<close>

text \<open>
  \<^verbatim>\<open>p.glob(pattern)\<close> with a pattern of one component lists the entries of \<open>p\<close> whose name
  matches it (files and directories alike, hidden ones included); on a file or a missing
  path it lists nothing. A listed \<^verbatim>\<open>Path\<close> is kept together with what it denotes, which is
  what \<^verbatim>\<open>is_dir\<close>, \<^verbatim>\<open>is_file\<close> and \<^verbatim>\<open>iterdir\<close> later read from it.
\<close>

definition glob :: "(string \<Rightarrow> bool) \<Rightarrow> path \<Rightarrow> node option \<Rightarrow> (path \<times> node) list" where
  "glob m p d = [(p @ [n], c). (n, c) \<leftarrow> entries d, m n]"

text \<open>
  \<^verbatim>\<open>p.glob("**/" + pattern)\<close> visits \<open>p\<close> and then every directory below it, each before
  the directories it contains, and lists the matching entries of each.
\<close>

fun rglob_node :: "(string \<Rightarrow> bool) \<Rightarrow> path \<Rightarrow> node \<Rightarrow> (path \<times> node) list" where
  "rglob_node m p File = []"
| "rglob_node m p (Dir es) =
     [(p @ [n], c). (n, c) \<leftarrow> es, m n] @ concat (map (\<lambda>e. rglob_node m (p @ [fst e]) (snd e)) es)"

definition rglob :: "(string \<Rightarrow> bool) \<Rightarrow> path \<Rightarrow> node option \<Rightarrow> (path \<times> node) list" where
  "rglob m p d = (case d of None \<Rightarrow> [] | Some n \<Rightarrow> rglob_node m p n)"

text \<open>The patterns \<^verbatim>\<open>*{ending}\<close>, \<^verbatim>\<open>*_g?\<close> and \<^verbatim>\<open>*\<close>.\<close>

definition star :: "string \<Rightarrow> string \<Rightarrow> bool" where
  "star ending n = endswith n ending"

definition star_g_any :: "string \<Rightarrow> bool" where
  "star_g_any n = (case rev n of c # g # u # r \<Rightarrow> g = CHR ''g'' \<and> u = CHR ''_'' | _ \<Rightarrow> False)"

definition anything :: "string \<Rightarrow> bool" where
  "anything n = True"

subsection \<open>validate\_raw\_behavioral\_data\_of\_session\<close>

text \<open>
  Modelled from the spec: \<^verbatim>\<open>_find_whitelisted_files_in_root\<close> is imported from
  \<^verbatim>\<open>beneuro_data.extra_file_handling\<close>, which is not among the sources. The spec has it
  collect the whitelisted files present in the root, by exact match of the file name.
\<close>

definition find_whitelisted_files_in_root :: "path \<Rightarrow> node option \<Rightarrow> string list \<Rightarrow> path list" where
  "find_whitelisted_files_in_root session_path on_disk whitelisted_files_in_root =
     [session_path @ [n]. (n, c) \<leftarrow> entries on_disk, n \<in> set whitelisted_files_in_root]"

text \<open>
  \<^verbatim>\<open>re.match\<close> of \<^verbatim>\<open>^{re.escape(session_path.name)}.*{ending}\<close>: the file name starts with
  the session name, any characters but newlines follow, and the ending pattern matches
  where they stop. Nothing anchors the end of the file name.
\<close>

fun dot_star_then :: "(string \<Rightarrow> bool) \<Rightarrow> string \<Rightarrow> bool" where
  "dot_star_then k [] = k []"
| "dot_star_then k (c # cs) = (k (c # cs) \<or> (c \<noteq> newline \<and> dot_star_then k cs))"

definition pca_ending :: "string \<Rightarrow> bool" where
  "pca_ending s =
     (startswith s ''_MotSen'' \<and>
      (case drop 7 s of
         d # h # x # r \<Rightarrow>
           is_digit d \<and> h = CHR ''-'' \<and> (x = CHR ''X'' \<or> x = CHR ''Y'') \<and> startswith r ''.pca''
       | _ \<Rightarrow> False))"

definition txt_ending :: "string \<Rightarrow> bool" where
  "txt_ending s = startswith s ''.txt''"

definition pycontrol_ending_pattern_per_extension :: "(string \<times> (string \<Rightarrow> bool)) list" where
  "pycontrol_ending_pattern_per_extension = [(''.pca'', pca_ending), (''.txt'', txt_ending)]"

definition expected_number_of_pycontrol_files_per_extension :: "string \<Rightarrow> nat" where
  "expected_number_of_pycontrol_files_per_extension extension =
     (if extension = ''.pca'' then 2 else 1)"

definition pycontrol_match :: "string \<Rightarrow> (string \<Rightarrow> bool) \<Rightarrow> string \<Rightarrow> bool" where
  "pycontrol_match session_name ending file_name =
     (startswith file_name session_name \<and>
      dot_star_then ending (drop (length session_name) file_name))"

text \<open>The inner loop over the files of one extension.\<close>

fun pycontrol_files_with_extension ::
  "string \<Rightarrow> string \<Rightarrow> (string \<Rightarrow> bool) \<Rightarrow> path list \<Rightarrow> path list \<Rightarrow> error + path list" where
  "pycontrol_files_with_extension session_name extension ending whitelisted [] = Inr []"
| "pycontrol_files_with_extension session_name extension ending whitelisted (ext_file # rest) =
     (if ext_file \<in> set whitelisted
      then pycontrol_files_with_extension session_name extension ending whitelisted rest
      else if \<not> pycontrol_match session_name ending (name ext_file)
      then Inl (ValueError (Filename_does_not_match_PyControl extension ext_file))
      else
        case pycontrol_files_with_extension session_name extension ending whitelisted rest of
          Inl e \<Rightarrow> Inl e
        | Inr found \<Rightarrow> Inr (ext_file # found))"

text \<open>The body of the outer loop for one extension, and the loop.\<close>

definition check_extension ::
  "path \<Rightarrow> node option \<Rightarrow> path list \<Rightarrow> string \<times> (string \<Rightarrow> bool) \<Rightarrow> error + path list" where
  "check_extension session_path on_disk whitelisted_files_found ext =
     (let extension = fst ext;
          all_files_with_extension = map fst (glob (star extension) session_path on_disk)
      in
        case pycontrol_files_with_extension (name session_path) extension (snd ext)
               whitelisted_files_found all_files_with_extension of
          Inl e \<Rightarrow> Inl e
        | Inr found \<Rightarrow>
            let n_files_found = length found;
                n_files_expected = expected_number_of_pycontrol_files_per_extension extension
            in
              if n_files_found \<noteq> n_files_expected
              then Inl (WrongNumberOfFilesError
                          (Expected_files_with_extension n_files_expected extension n_files_found))
              else Inr found)"

fun check_extensions ::
  "path \<Rightarrow> node option \<Rightarrow> path list \<Rightarrow> (string \<times> (string \<Rightarrow> bool)) list \<Rightarrow> error + path list" where
  "check_extensions session_path on_disk whitelisted_files_found [] = Inr []"
| "check_extensions session_path on_disk whitelisted_files_found (ext # exts) =
     (case check_extension session_path on_disk whitelisted_files_found ext of
        Inl e \<Rightarrow> Inl e
      | Inr found \<Rightarrow>
          (case check_extensions session_path on_disk whitelisted_files_found exts of
             Inl e \<Rightarrow> Inl e
           | Inr others \<Rightarrow> Inr (found @ others)))"

definition pycontrol_py_foldername :: string where
  "pycontrol_py_foldername = ''run_task-task_files''"

definition validate_raw_behavioral_data_of_session ::
  "path \<Rightarrow> node option \<Rightarrow> string \<Rightarrow> string list \<Rightarrow> bool \<Rightarrow> warning list \<times> (error + path list)" where
  "validate_raw_behavioral_data_of_session session_path on_disk subject_name
       whitelisted_files_in_root warn_if_no_pycontrol_py_folder =
     (case validate_session_path session_path on_disk subject_name of
        Inl e \<Rightarrow> ([], Inl e)
      | Inr _ \<Rightarrow>
          let whitelisted_files_found =
                find_whitelisted_files_in_root session_path on_disk whitelisted_files_in_root
          in
            case check_extensions session_path on_disk whitelisted_files_found
                   pycontrol_ending_pattern_per_extension of
              Inl e \<Rightarrow> ([], Inl e)
            | Inr behavioral_data_files \<Rightarrow>
                let py_folder = child_node on_disk pycontrol_py_foldername in
                if py_folder = None
                then (if warn_if_no_pycontrol_py_folder
                      then [No_PyControl_task_folder session_path] else [],
                      Inr behavioral_data_files)
                else
                  let python_files_found =
                        map fst (glob (star ''.py'') (session_path @ [pycontrol_py_foldername]) py_folder)
                  in
                    if length python_files_found > 1
                    then ([], Inl (ValueError (More_than_one_py_file session_path)))
                    else if length python_files_found = 0
                    then ([], Inl (FileNotFoundError (No_py_file_found session_path)))
                    else ([], Inr (behavioral_data_files @ [hd python_files_found])))"

subsection \<open>validate\_raw\_ephys\_recording\<close>

text \<open>
  \<^verbatim>\<open>child.match(".*")\<close> holds for a name that starts with a dot. \<^verbatim>\<open>child.suffix\<close> is the
  name from its last dot on, or empty when the name has no dot, only a leading one, or
  ends with it. \<^verbatim>\<open>name.split("_")[-1]\<close> is what follows the last underscore.
\<close>

definition hidden :: "string \<Rightarrow> bool" where
  "hidden n = startswith n ''.''"

fun rfind :: "char \<Rightarrow> string \<Rightarrow> nat option" where
  "rfind c [] = None"
| "rfind c (x # xs) =
     (case rfind c xs of Some i \<Rightarrow> Some (Suc i) | None \<Rightarrow> if x = c then Some 0 else None)"

definition path_suffix :: "string \<Rightarrow> string" where
  "path_suffix n =
     (case rfind (CHR ''.'') n of
        None \<Rightarrow> []
      | Some i \<Rightarrow> if 0 < i \<and> i < length n - 1 then drop i n else [])"

fun split_at :: "char \<Rightarrow> string \<Rightarrow> string list" where
  "split_at sep [] = [[]]"
| "split_at sep (c # cs) =
     (if c = sep then [] # split_at sep cs
      else case split_at sep cs of piece # pieces \<Rightarrow> (c # piece) # pieces | [] \<Rightarrow> [[c]])"

text \<open>
  \<^verbatim>\<open>gid_folder_path.iterdir()\<close> raises on a missing path and on a file. The loop over the
  children keeps the probe subfolders and stops at the first loose file.
\<close>

definition iterdir :: "path \<Rightarrow> node option \<Rightarrow> error + (path \<times> node) list" where
  "iterdir p d =
     (case d of
        None \<Rightarrow> Inl (FileNotFoundError (No_such_file_or_directory p))
      | Some File \<Rightarrow> Inl (NotADirectoryError p)
      | Some (Dir es) \<Rightarrow> Inr (map (\<lambda>e. (p @ [fst e], snd e)) es))"

fun probe_subfolders :: "string list \<Rightarrow> (path \<times> node) list \<Rightarrow> error + (path \<times> node) list" where
  "probe_subfolders allowed_extensions_not_in_root [] = Inr []"
| "probe_subfolders allowed_extensions_not_in_root (child # rest) =
     (if hidden (name (fst child))
      then probe_subfolders allowed_extensions_not_in_root rest
      else if path_suffix (name (fst child)) \<in> set allowed_extensions_not_in_root
      then probe_subfolders allowed_extensions_not_in_root rest
      else if \<not> is_dir (snd child) then Inl (ValueError Only_folders_are_allowed)
      else
        case probe_subfolders allowed_extensions_not_in_root rest of
          Inl e \<Rightarrow> Inl e
        | Inr probes \<Rightarrow> Inr (child # probes))"

text \<open>
  The probe folders are matched against \<^verbatim>\<open>rf"{gid_folder_path.name}_imec\d$"\<close>. The folder
  name goes into the pattern unescaped, so what the pattern means depends on the name.
  The regular expression engine is therefore a parameter \<open>re_match\<close>: from a pattern and
  a string to whether \<^verbatim>\<open>re.match\<close> finds a match, or \<open>None\<close> when the pattern does not
  compile.
\<close>

type_synonym regex_engine = "string \<Rightarrow> string \<Rightarrow> bool option"

text \<open>The fixed part of the pattern, \<^verbatim>\<open>_imec\d$\<close>; the character \<open>0x5C\<close> is the backslash.\<close>

definition imec_pattern :: string where
  "imec_pattern = ''_imec'' @ [CHR 0x5C] @ ''d$''"

fun probe_names ::
  "regex_engine \<Rightarrow> string \<Rightarrow> (path \<times> node) list \<Rightarrow> error + unit" where
  "probe_names re_match probe_subfolder_pattern [] = Inr ()"
| "probe_names re_match probe_subfolder_pattern (probe_folder # rest) =
     (case re_match probe_subfolder_pattern (name (fst probe_folder)) of
        None \<Rightarrow> Inl (Re_error probe_subfolder_pattern)
      | Some False \<Rightarrow> Inl (ValueError (Probe_folder_name_mismatch (fst probe_folder)))
      | Some True \<Rightarrow> probe_names re_match probe_subfolder_pattern rest)"

definition expected_endings :: "string list" where
  "expected_endings = [''.lf.meta'', ''.lf.bin'', ''.ap.meta'', ''.ap.bin'']"

definition expected_filenames :: "string \<Rightarrow> string \<Rightarrow> string list" where
  "expected_filenames gid_folder_name probe_folder_name =
     (let imec_str = last (split_at (CHR ''_'') probe_folder_name)
      in map (\<lambda>ending. gid_folder_name @ ''_t0.'' @ imec_str @ ending) expected_endings)"

definition found_filenames :: "node \<Rightarrow> string list" where
  "found_filenames probe = map fst (entries (Some probe))"

fun probe_files :: "string \<Rightarrow> (path \<times> node) list \<Rightarrow> error + unit" where
  "probe_files gid_folder_name [] = Inr ()"
| "probe_files gid_folder_name (probe_folder # rest) =
     (if set (found_filenames (snd probe_folder))
           \<noteq> set (expected_filenames gid_folder_name (name (fst probe_folder)))
      then Inl (ValueError (Probe_files_mismatch (fst probe_folder)))
      else probe_files gid_folder_name rest)"

definition validate_raw_ephys_recording ::
  "regex_engine \<Rightarrow> path \<Rightarrow> node option \<Rightarrow> string list \<Rightarrow> error + bool" where
  "validate_raw_ephys_recording re_match gid_folder_path on_disk allowed_extensions_not_in_root =
     (case extract_gid (name gid_folder_path) of
        Inl e \<Rightarrow> Inl e
      | Inr gid \<Rightarrow>
          let session_name = name (parent gid_folder_path);
              expected_folder_name = session_name @ ''_'' @ gid
          in
            if name gid_folder_path \<noteq> expected_folder_name
            then Inl (ValueError (Folder_name_does_not_match_expected
                                    (name gid_folder_path) expected_folder_name))
            else
              case iterdir gid_folder_path on_disk of
                Inl e \<Rightarrow> Inl e
              | Inr children \<Rightarrow>
                  (case probe_subfolders allowed_extensions_not_in_root children of
                     Inl e \<Rightarrow> Inl e
                   | Inr probes \<Rightarrow>
                       (case probe_names re_match (name gid_folder_path @ imec_pattern) probes of
                          Inl e \<Rightarrow> Inl e
                        | Inr _ \<Rightarrow>
                            (case probe_files (name gid_folder_path) probes of
                               Inl e \<Rightarrow> Inl e
                             | Inr _ \<Rightarrow> Inr True))))"

subsection \<open>validate\_raw\_ephys\_data\_of\_session\<close>

definition find_spikeglx_recording_folders_in_session ::
  "path \<Rightarrow> node option \<Rightarrow> warning list \<times> (path \<times> node) list" where
  "find_spikeglx_recording_folders_in_session session_path on_disk =
     (let recording_folder_paths = glob star_g_any session_path on_disk
      in (if length recording_folder_paths > 1 then [More_than_one_recording session_path] else [],
          recording_folder_paths))"

fun validate_recordings ::
  "regex_engine \<Rightarrow> string list \<Rightarrow> (path \<times> node) list \<Rightarrow> error + unit" where
  "validate_recordings re_match allowed_extensions_not_in_root [] = Inr ()"
| "validate_recordings re_match allowed_extensions_not_in_root (recording_path # rest) =
     (case validate_raw_ephys_recording re_match (fst recording_path) (Some (snd recording_path))
             allowed_extensions_not_in_root of
        Inl e \<Rightarrow> Inl e
      | Inr _ \<Rightarrow> validate_recordings re_match allowed_extensions_not_in_root rest)"

definition spikeglx_endings :: "string list" where
  "spikeglx_endings = [''.lf.meta'', ''.lf.bin'', ''.ap.meta'', ''.ap.bin'']"

text \<open>
  The two nested loops of the cross-check visit the files ending by ending; the first
  one outside every recording folder raises.
\<close>

definition spikeglx_filepaths :: "path \<Rightarrow> node option \<Rightarrow> path list" where
  "spikeglx_filepaths session_path on_disk =
     concat (map (\<lambda>ending. map fst (rglob (star ending) session_path on_disk)) spikeglx_endings)"

definition in_known_recording :: "path list \<Rightarrow> path \<Rightarrow> bool" where
  "in_known_recording recording_folder_paths spikeglx_filepath =
     list_ex (\<lambda>recording_path. is_relative_to spikeglx_filepath recording_path)
       recording_folder_paths"

definition validate_raw_ephys_data_of_session ::
  "regex_engine \<Rightarrow> path \<Rightarrow> node option \<Rightarrow> string \<Rightarrow> string list
     \<Rightarrow> warning list \<times> (error + path list)" where
  "validate_raw_ephys_data_of_session re_match session_path on_disk subject_name
       allowed_extensions_not_in_root =
     (case validate_session_path session_path on_disk subject_name of
        Inl e \<Rightarrow> ([], Inl e)
      | Inr _ \<Rightarrow>
          let found = find_spikeglx_recording_folders_in_session session_path on_disk;
              warnings = fst found;
              recording_folder_paths = snd found
          in
            case validate_recordings re_match allowed_extensions_not_in_root recording_folder_paths of
              Inl e \<Rightarrow> (warnings, Inl e)
            | Inr _ \<Rightarrow>
                (case find (\<lambda>f. \<not> in_known_recording (map fst recording_folder_paths) f)
                        (spikeglx_filepaths session_path on_disk) of
                   Some f \<Rightarrow> (warnings, Inl (ValueError (Not_in_any_known_recording_folder f)))
                 | None \<Rightarrow>
                     (warnings,
                      Inr (concat (map (\<lambda>recording_folder.
                             map fst (filter (\<lambda>f. is_file (snd f))
                               (rglob anything (fst recording_folder) (Some (snd recording_folder)))))
                             recording_folder_paths)))))"

subsection \<open>validate\_raw\_videos\_of\_session\<close>

definition video_extension :: string where
  "video_extension = ''.avi''"

text \<open>The checks made when the video folder exists.\<close>

definition check_video_folder :: "string \<Rightarrow> path \<Rightarrow> node option \<Rightarrow> error + unit" where
  "check_video_folder session_name video_folder_path video_folder =
     (let expected_video_filename_start = session_name @ ''_camera_'';
          avi_files = map fst (glob (star video_extension) video_folder_path video_folder)
      in
        if length avi_files = 0
        then Inl (FileNotFoundError (No_video_files_found video_folder_path))
        else
          case find (\<lambda>avi_file. \<not> startswith (name avi_file) expected_video_filename_start)
                 avi_files of
            Some avi_file \<Rightarrow>
              Inl (ValueError (Video_filename_does_not_start_with
                                 expected_video_filename_start avi_file))
          | None \<Rightarrow>
              (case iterdir video_folder_path video_folder of
                 Inl e \<Rightarrow> Inl e
               | Inr children \<Rightarrow>
                   let remaining_files_in_folder =
                         remdups (filter (\<lambda>f. f \<notin> set avi_files) (map fst children))
                   in
                     if video_folder_path @ [''metadata.csv''] \<notin> set remaining_files_in_folder
                     then Inl (FileNotFoundError (Could_not_find_metadata_csv video_folder_path))
                     else if length remaining_files_in_folder > 1
                     then Inl (ValueError (Unexpected_files_in_video_folder video_folder_path))
                     else Inr ()))"

definition validate_raw_videos_of_session ::
  "path \<Rightarrow> node option \<Rightarrow> string \<Rightarrow> bool \<Rightarrow> warning list \<times> (error + path list)" where
  "validate_raw_videos_of_session session_path on_disk subject_name warn_if_no_video_folder =
     (case validate_session_path session_path on_disk subject_name of
        Inl e \<Rightarrow> ([], Inl e)
      | Inr _ \<Rightarrow>
          let session_name = name session_path;
              video_folder_name = session_name @ ''_cameras'';
              video_folder_path = session_path @ [video_folder_name];
              video_folder = child_node on_disk video_folder_name;
              video_folder_exists = (video_folder \<noteq> None);
              warnings = (if \<not> video_folder_exists \<and> warn_if_no_video_folder
                          then [No_video_folder session_path] else [])
          in
            case (if video_folder_exists
                  then check_video_folder session_name video_folder_path video_folder
                  else Inr ()) of
              Inl e \<Rightarrow> (warnings, Inl e)
            | Inr _ \<Rightarrow>
                (case find (\<lambda>avi_path. \<not> is_relative_to avi_path video_folder_path)
                        (map fst (rglob (star video_extension) session_path on_disk)) of
                   Some avi_path \<Rightarrow>
                     (warnings,
                      Inl (ValueError (Unexpected_location video_extension avi_path video_folder_path)))
                 | None \<Rightarrow>
                     (case find (\<lambda>metadata_path. \<not> is_relative_to metadata_path video_folder_path)
                             (map fst (rglob (\<lambda>n. n = ''metadata.csv'') session_path on_disk)) of
                        Some metadata_path \<Rightarrow>
                          (warnings,
                           Inl (ValueError
                                  (Unexpected_location ''metadata.csv'' metadata_path video_folder_path)))
                      | None \<Rightarrow>
                          (warnings,
                           Inr (if video_folder_exists
                                then map fst (filter (\<lambda>f. is_file (snd f))
                                       (rglob anything video_folder_path video_folder))
                                else [])))))"

subsection \<open>validate\_raw\_session\<close>

text \<open>
  The three validators run in turn, each only when its toggle is on, with their warning
  flags at the default \<open>True\<close>. The first exception ends the call; the warnings emitted
  until then stay emitted.
\<close>

definition validate_raw_session ::
  "regex_engine \<Rightarrow> path \<Rightarrow> node option \<Rightarrow> string \<Rightarrow> bool \<Rightarrow> bool \<Rightarrow> bool \<Rightarrow> string list
     \<Rightarrow> string list \<Rightarrow> warning list \<times> (error + path list \<times> path list \<times> path list)" where
  "validate_raw_session re_match session_path on_disk subject_name include_behavior include_ephys
       include_videos whitelisted_files_in_root allowed_extensions_not_in_root =
     (let b = (if include_behavior
               then validate_raw_behavioral_data_of_session session_path on_disk subject_name
                      whitelisted_files_in_root True
               else ([], Inr []))
      in
        case snd b of
          Inl e \<Rightarrow> (fst b, Inl e)
        | Inr behavior_files \<Rightarrow>
            let e = (if include_ephys
                     then validate_raw_ephys_data_of_session re_match session_path on_disk
                            subject_name allowed_extensions_not_in_root
                     else ([], Inr []))
            in
              (case snd e of
                 Inl err \<Rightarrow> (fst b @ fst e, Inl err)
               | Inr ephys_files \<Rightarrow>
                   let v = (if include_videos
                            then validate_raw_videos_of_session session_path on_disk subject_name True
                            else ([], Inr []))
                   in
                     (case snd v of
                        Inl err \<Rightarrow> (fst b @ fst e @ fst v, Inl err)
                      | Inr video_files \<Rightarrow>
                          (fst b @ fst e @ fst v, Inr (behavior_files, ephys_files, video_files)))))"

text \<open>
  What \<^verbatim>\<open>re.match\<close> does with the pattern \<^verbatim>\<open>{literal}_imec\d$\<close> when the literal part
  consists of letters, digits and underscores, none of which is special in a regular
  expression: the string has to consist of the literal part, \<^verbatim>\<open>_imec\<close> and one digit, with
  at most a final newline after them (\<^verbatim>\<open>$\<close> also matches before a newline that ends the
  string).
\<close>

definition plain_char :: "char \<Rightarrow> bool" where
  "plain_char c =
     (c \<in> set ''abcdefghijklmnopqrstuvwxyzABCDEFGHIJKLMNOPQRSTUVWXYZ0123456789_'')"

definition plain :: "string \<Rightarrow> bool" where
  "plain s = list_all plain_char s"

definition imec_match :: "string \<Rightarrow> string \<Rightarrow> bool" where
  "imec_match literal s =
     (startswith s (literal @ ''_imec'') \<and>
      (case drop (length literal + 5) s of
         [d] \<Rightarrow> is_digit d
       | [d, e] \<Rightarrow> is_digit d \<and> e = newline
       | _ \<Rightarrow> False))"

text \<open>
  An instance of the engine for the examples below. It answers only for the patterns
  just described. For any other pattern it stands for no behaviour of Python (its value
  there is \<open>None\<close>), and no statement applies it to one.
\<close>

definition re_match_plain :: regex_engine where
  "re_match_plain pattern s =
     (let literal = take (length pattern - length imec_pattern) pattern in
      if endswith pattern imec_pattern \<and> plain literal
      then Some (imec_match literal s)
      else None)"

subsection \<open>Notions used in the statements\<close>

text \<open>
  The files of one extension in the session root that the whitelist does not exempt, and
  the \<^verbatim>\<open>.py\<close> files of the task folder. Both are what the function itself computes; they
  are named here for the statements only.
\<close>

definition non_whitelisted :: "path \<Rightarrow> node option \<Rightarrow> string list \<Rightarrow> string \<Rightarrow> path list" where
  "non_whitelisted session_path on_disk whitelisted_files_in_root extension =
     filter (\<lambda>f. f \<notin> set (find_whitelisted_files_in_root session_path on_disk
                                whitelisted_files_in_root))
       (map fst (glob (star extension) session_path on_disk))"

definition python_files_in_task_folder :: "path \<Rightarrow> node option \<Rightarrow> path list" where
  "python_files_in_task_folder session_path on_disk =
     map fst (glob (star ''.py'') (session_path @ [pycontrol_py_foldername])
                (child_node on_disk pycontrol_py_foldername))"

text \<open>
  An entry of the session tree, file or directory, whose name has one of the four
  recording endings and whose path lies in none of the discovered folders named
  \<^verbatim>\<open>*_g{digit}\<close>; and an entry whose name ends in \<^verbatim>\<open>.avi\<close> or is \<^verbatim>\<open>metadata.csv\<close> and whose
  path does not lie in the expected video folder.
\<close>

definition stray_recording_data :: "path \<Rightarrow> node option \<Rightarrow> bool" where
  "stray_recording_data session_path on_disk =
     list_ex (\<lambda>f. list_ex (\<lambda>ending. endswith (name (fst f)) ending) spikeglx_endings
                 \<and> \<not> list_ex (\<lambda>r. is_digit (last (name (fst r))) \<and> is_relative_to (fst f) (fst r))
                        (glob star_g_any session_path on_disk))
       (rglob anything session_path on_disk)"

definition misplaced_video_data :: "path \<Rightarrow> node option \<Rightarrow> bool" where
  "misplaced_video_data session_path on_disk =
     list_ex (\<lambda>f. (endswith (name (fst f)) ''.avi'' \<or> name (fst f) = ''metadata.csv'')
                 \<and> \<not> is_relative_to (fst f) (session_path @ [name session_path @ ''_cameras'']))
       (rglob anything session_path on_disk)"

section \<open>Properties\<close>

subsection \<open>The recording id\<close>

text \<open>
  C1, as the code has it. The claim expects the string \<open>1\<close> for the folder name
  \<open>M016_2023_08_15_16_00_g1\<close>; the function returns \<^verbatim>\<open>group(0)[1:]\<close>, the match without its
  underscore, which is \<open>g1\<close>.
\<close>

theorem extract_gid_not_bare_digit:
  "extract_gid ''M016_2023_08_15_16_00_g1'' \<noteq> Inr ''1''"
  by (simp add: extract_gid_def gid_match_here_def is_digit_def)

lemma gid_match_here_cases:
  "gid_match_here t \<Longrightarrow>
     \<exists>d. is_digit d \<and> (t = [CHR ''_'', CHR ''g'', d] \<or> t = [CHR ''_'', CHR ''g'', d, newline])"
  unfolding gid_match_here_def
  by (simp split: list.splits)

lemma gid_match_here_intro:
  "is_digit d \<Longrightarrow> gid_match_here [CHR ''_'', CHR ''g'', d]
                 \<and> gid_match_here [CHR ''_'', CHR ''g'', d, newline]"
  by (simp add: gid_match_here_def)

lemma gid_match_here_not_earlier:
  assumes "gid_match_here t"
  shows "\<not> gid_match_here (c # pre @ t)"
proof
  assume a: "gid_match_here (c # pre @ t)"
  from gid_match_here_cases[OF assms] obtain d where
    t: "t = [CHR ''_'', CHR ''g'', d] \<or> t = [CHR ''_'', CHR ''g'', d, newline]" by blast
  from gid_match_here_cases[OF a] obtain d' where
    u: "c # pre @ t = [CHR ''_'', CHR ''g'', d'] \<or> c # pre @ t = [CHR ''_'', CHR ''g'', d', newline]"
    by blast
  from t u show False
    by (cases pre) auto
qed

lemma gid_search_finds:
  "gid_match_here t \<Longrightarrow> gid_search (pre @ t) = Some (take 3 t)"
proof (induction pre)
  case Nil
  from gid_match_here_cases[OF Nil] obtain x xs where "t = x # xs" by auto
  with Nil show ?case by simp
next
  case (Cons c pre)
  from gid_match_here_not_earlier[OF Cons.prems] Cons.IH[OF Cons.prems]
  show ?case by simp
qed

lemma gid_search_suffix:
  "gid_search s = Some g \<Longrightarrow> \<exists>pre t. s = pre @ t \<and> gid_match_here t"
proof (induction s)
  case Nil
  then show ?case by simp
next
  case (Cons c cs)
  show ?case
  proof (cases "gid_match_here (c # cs)")
    case True
    then have "c # cs = [] @ (c # cs) \<and> gid_match_here (c # cs)" by simp
    then show ?thesis by blast
  next
    case False
    with Cons.prems have "gid_search cs = Some g" by simp
    from Cons.IH[OF this] obtain pre t where "cs = pre @ t" "gid_match_here t" by blast
    then have "c # cs = (c # pre) @ t \<and> gid_match_here t" by simp
    then show ?thesis by blast
  qed
qed

lemma extract_gid_Inr_iff:
  "extract_gid s = Inr g \<longleftrightarrow>
     (\<exists>d. is_digit d \<and> g = [CHR ''g'', d]
          \<and> (endswith s (''_g'' @ [d]) \<or> endswith s (''_g'' @ [d, newline])))"
proof
  assume "extract_gid s = Inr g"
  then obtain g0 where g0: "gid_search s = Some g0" and g: "g = drop 1 g0"
    by (auto simp: extract_gid_def split: option.splits)
  from gid_search_suffix[OF g0] obtain pre t where s: "s = pre @ t" and t: "gid_match_here t"
    by blast
  from gid_search_finds[OF t, of pre] g0 s have g0': "g0 = take 3 t" by simp
  from gid_match_here_cases[OF t] obtain d where d: "is_digit d"
    and c: "t = [CHR ''_'', CHR ''g'', d] \<or> t = [CHR ''_'', CHR ''g'', d, newline]" by blast
  from c g g0' have 1: "g = [CHR ''g'', d]" by auto
  from c s have 2: "endswith s (''_g'' @ [d]) \<or> endswith s (''_g'' @ [d, newline])"
    by (auto simp: endswith_def suffix_def)
  from d 1 2 show "\<exists>d. is_digit d \<and> g = [CHR ''g'', d]
          \<and> (endswith s (''_g'' @ [d]) \<or> endswith s (''_g'' @ [d, newline]))" by blast
next
  assume "\<exists>d. is_digit d \<and> g = [CHR ''g'', d]
          \<and> (endswith s (''_g'' @ [d]) \<or> endswith s (''_g'' @ [d, newline]))"
  then obtain d where d: "is_digit d" and g: "g = [CHR ''g'', d]"
    and e: "endswith s (''_g'' @ [d]) \<or> endswith s (''_g'' @ [d, newline])" by blast
  from e obtain pre t where s: "s = pre @ t"
    and t: "t = [CHR ''_'', CHR ''g'', d] \<or> t = [CHR ''_'', CHR ''g'', d, newline]"
    by (auto simp: endswith_def suffix_def)
  from t gid_match_here_intro[OF d] have m: "gid_match_here t" by auto
  from gid_search_finds[OF m, of pre] s t have "gid_search s = Some [CHR ''_'', CHR ''g'', d]"
    by auto
  with g show "extract_gid s = Inr g" by (simp add: extract_gid_def)
qed

lemma extract_gid_Inl_iff:
  "extract_gid s = Inl e \<longleftrightarrow>
     e = ValueError (Could_not_extract_recording_ID s)
     \<and> \<not> (\<exists>d. is_digit d \<and> (endswith s (''_g'' @ [d]) \<or> endswith s (''_g'' @ [d, newline])))"
proof -
  have a: "(\<exists>g. extract_gid s = Inr g) \<longleftrightarrow>
        (\<exists>d. is_digit d \<and> (endswith s (''_g'' @ [d]) \<or> endswith s (''_g'' @ [d, newline])))"
    by (auto simp: extract_gid_Inr_iff)
  have b: "extract_gid s = Inl e \<longleftrightarrow>
        e = ValueError (Could_not_extract_recording_ID s) \<and> \<not> (\<exists>g. extract_gid s = Inr g)"
    by (auto simp: extract_gid_def split: option.splits)
  from a b show ?thesis by simp
qed

text \<open>
  C1, amended. On \<open>M016_2023_08_15_16_00_g1\<close> the function returns \<open>g1\<close>, and on
  \<open>M016_2023_08_15_16_00_no_gid_here\<close> it raises \<^verbatim>\<open>ValueError\<close>. For every folder name it
  returns \<open>g\<close> and the digit exactly when the name ends in \<open>_g\<close> and that digit, and it
  raises \<^verbatim>\<open>ValueError\<close> exactly when the name has no such ending. The ending is the one
  the pattern \<^verbatim>\<open>_g(\d)$\<close> accepts: the token at the very end of the name, or followed by one
  newline that ends the name.
\<close>

theorem extract_gid_returns_g_and_digit:
  "extract_gid ''M016_2023_08_15_16_00_g1'' = Inr ''g1''
   \<and> extract_gid ''M016_2023_08_15_16_00_no_gid_here''
       = Inl (ValueError (Could_not_extract_recording_ID ''M016_2023_08_15_16_00_no_gid_here''))
   \<and> (extract_gid s = Inr g \<longleftrightarrow>
        (\<exists>d. is_digit d \<and> g = [CHR ''g'', d]
             \<and> (endswith s (''_g'' @ [d]) \<or> endswith s (''_g'' @ [d, newline]))))
   \<and> (extract_gid s = Inl e \<longleftrightarrow>
        e = ValueError (Could_not_extract_recording_ID s)
        \<and> \<not> (\<exists>d. is_digit d \<and> (endswith s (''_g'' @ [d]) \<or> endswith s (''_g'' @ [d, newline]))))"
proof -
  have 1: "extract_gid ''M016_2023_08_15_16_00_g1'' = Inr ''g1''"
    by (simp add: extract_gid_def gid_match_here_def is_digit_def)
  have 2: "extract_gid ''M016_2023_08_15_16_00_no_gid_here''
       = Inl (ValueError (Could_not_extract_recording_ID ''M016_2023_08_15_16_00_no_gid_here''))"
    by (simp add: extract_gid_def gid_match_here_def is_digit_def)
  from 1 2 extract_gid_Inr_iff[of s g] extract_gid_Inl_iff[of s e] show ?thesis by blast
qed

subsection \<open>The session folder's name\<close>

lemma validate_date_format_Inr_iff:
  "validate_date_format s = Inr b \<longleftrightarrow> b \<and> (\<exists>t. strptime s = Some t \<and> strftime t = s)"
  by (auto simp: validate_date_format_def Let_def split: option.splits)

lemma name_snoc [simp]: "name (p @ [n]) = n"
  by (simp add: name_def)

lemma session_name_shape:
  assumes "startswith f s" "length s < length f" "f ! length s = CHR ''_''"
  shows "f = s @ ''_'' @ drop (length s + 1) f"
proof -
  from assms(1) obtain r where r: "f = s @ r" by (auto simp: startswith_def prefix_def)
  with assms(2) have "r \<noteq> []" by auto
  then obtain c cs where cs: "r = c # cs" by (cases r) auto
  with r assms(3) have "c = CHR ''_''" by (simp add: nth_append)
  with r cs show ?thesis by simp
qed

lemma validate_session_path_True_iff:
  "validate_session_path sp d subj = Inr True \<longleftrightarrow>
     d \<noteq> None \<and> (\<exists>date. name sp = subj @ ''_'' @ date \<and> validate_date_format date = Inr True)"
proof
  assume a: "validate_session_path sp d subj = Inr True"
  let ?f = "name sp"
  from a have d: "d \<noteq> None" and s: "startswith ?f subj" and l: "length subj < length ?f"
    and u: "?f ! length subj = CHR ''_''"
    and v: "\<exists>b. validate_date_format (drop (length subj + 1) ?f) = Inr b"
    by (auto simp: validate_session_path_def Let_def split: if_splits sum.splits)
  from v have v': "validate_date_format (drop (length subj + 1) ?f) = Inr True"
    by (auto simp: validate_date_format_Inr_iff)
  from session_name_shape[OF s l u] v' d
  show "d \<noteq> None \<and> (\<exists>date. name sp = subj @ ''_'' @ date \<and> validate_date_format date = Inr True)"
    by blast
next
  assume "d \<noteq> None \<and> (\<exists>date. name sp = subj @ ''_'' @ date \<and> validate_date_format date = Inr True)"
  then obtain date where d: "d \<noteq> None" and n: "name sp = subj @ ''_'' @ date"
    and v: "validate_date_format date = Inr True" by blast
  show "validate_session_path sp d subj = Inr True"
    using d v by (simp add: validate_session_path_def Let_def n startswith_def nth_append)
qed

text \<open>
  C2. \<open>validate_date_format\<close> returns \<open>True\<close> exactly for the strings that \<open>strptime\<close> parses
  and \<open>strftime\<close> prints back unchanged; in every other case it raises \<^verbatim>\<open>ValueError\<close>, with
  the format in the message when the string does not parse and the canonical string when
  it parses to something else. \<open>2023_8_15_16_00\<close> parses (to August) and is refused
  for \<open>2023_08_15_16_00\<close>. For a session folder that exists, \<open>validate_session_path\<close>
  succeeds exactly when the folder name is the subject name, an underscore and a date
  string that round-trips.
\<close>

theorem validate_date_format_round_trip:
  "(validate_date_format s = Inr True \<longleftrightarrow> (\<exists>t. strptime s = Some t \<and> strftime t = s))
   \<and> validate_date_format s =
       (case strptime s of
          None \<Rightarrow> Inl (ValueError (Does_not_match_expected_format s EXPECTED_DATE_FORMAT))
        | Some t \<Rightarrow>
            if strftime t = s then Inr True
            else Inl (ValueError (Does_not_match_expected_format s (strftime t))))
   \<and> strptime ''2023_8_15_16_00''
       = Some \<lparr>year = 2023, month = 8, day = 15, hour = 16, minute = 0\<rparr>
   \<and> validate_date_format ''2023_8_15_16_00''
       = Inl (ValueError (Does_not_match_expected_format ''2023_8_15_16_00'' ''2023_08_15_16_00''))
   \<and> validate_date_format ''2023_08_15_16_00'' = Inr True
   \<and> (validate_session_path session_path on_disk subject_name = Inr True \<longleftrightarrow>
        on_disk \<noteq> None
        \<and> (\<exists>date. name session_path = subject_name @ ''_'' @ date
                   \<and> (\<exists>t. strptime date = Some t \<and> strftime t = date)))"
proof -
  have 1: "validate_date_format s = Inr True \<longleftrightarrow> (\<exists>t. strptime s = Some t \<and> strftime t = s)"
    by (simp add: validate_date_format_Inr_iff)
  have 2: "validate_date_format s =
       (case strptime s of
          None \<Rightarrow> Inl (ValueError (Does_not_match_expected_format s EXPECTED_DATE_FORMAT))
        | Some t \<Rightarrow>
            if strftime t = s then Inr True
            else Inl (ValueError (Does_not_match_expected_format s (strftime t))))"
    by (auto simp: validate_date_format_def Let_def split: option.splits)
  have 3: "strptime ''2023_8_15_16_00''
       = Some \<lparr>year = 2023, month = 8, day = 15, hour = 16, minute = 0\<rparr>"
    by code_simp
  have 4: "validate_date_format ''2023_8_15_16_00''
       = Inl (ValueError (Does_not_match_expected_format ''2023_8_15_16_00'' ''2023_08_15_16_00''))"
    by code_simp
  have 5: "validate_date_format ''2023_08_15_16_00'' = Inr True"
    by code_simp
  have 6: "validate_session_path session_path on_disk subject_name = Inr True \<longleftrightarrow>
        on_disk \<noteq> None
        \<and> (\<exists>date. name session_path = subject_name @ ''_'' @ date
                   \<and> (\<exists>t. strptime date = Some t \<and> strftime t = date))"
    by (simp add: validate_session_path_True_iff validate_date_format_Inr_iff)
  from 1 2 3 4 5 6 show ?thesis by blast
qed

text \<open>
  C7, at the input where the code leaves the claim: the session folder \<open>M016\<close> of the
  subject \<open>M016\<close> exists and its name starts with the subject name; no underscore follows,
  and the function raises \<^verbatim>\<open>IndexError\<close>, not the \<^verbatim>\<open>ValueError\<close> of the missing underscore.
\<close>

theorem validate_session_path_bare_subject_name:
  "validate_session_path [''raw'', ''M016''] (Some (Dir [])) ''M016'' = Inl IndexError"
  by code_simp

text \<open>
  C9. For a session folder that exists, \<open>validate_session_path\<close> raises \<^verbatim>\<open>IndexError\<close>
  exactly when the folder name is the subject name itself: the name passes the
  \<^verbatim>\<open>startswith\<close> check and has no character at index \<^verbatim>\<open>len(subject_name)\<close>.
\<close>

theorem validate_session_path_IndexError_iff:
  "validate_session_path session_path (Some n) subject_name = Inl IndexError
     \<longleftrightarrow> name session_path = subject_name"
proof
  assume "validate_session_path session_path (Some n) subject_name = Inl IndexError"
  then have "startswith (name session_path) subject_name"
    "length (name session_path) \<le> length subject_name"
    by (auto simp: validate_session_path_def Let_def validate_date_format_def
             split: if_splits sum.splits option.splits)
  then show "name session_path = subject_name"
    by (auto simp: startswith_def prefix_def)
next
  assume "name session_path = subject_name"
  then show "validate_session_path session_path (Some n) subject_name = Inl IndexError"
    by (simp add: validate_session_path_def Let_def startswith_def)
qed

subsection \<open>The composition\<close>

text \<open>
  C10. With the three toggles off \<open>validate_raw_session\<close> returns three empty lists and
  emits no warning, whatever the path, the tree on disk (also none), the subject name,
  the whitelist and the allowed extensions: the result does not depend on the file system.
\<close>

theorem validate_raw_session_all_off:
  "validate_raw_session re_match session_path on_disk subject_name False False False
     whitelisted_files_in_root allowed_extensions_not_in_root = ([], Inr ([], [], []))"
  by (simp add: validate_raw_session_def)

subsection \<open>Behavioural files\<close>

lemma pycontrol_files_all_match:
  "list_all (\<lambda>f. pycontrol_match sn ending (name f)) (filter (\<lambda>f. f \<notin> set wl) fs)
   \<Longrightarrow> pycontrol_files_with_extension sn ext ending wl fs = Inr (filter (\<lambda>f. f \<notin> set wl) fs)"
  by (induction fs) (auto split: if_splits)

lemma check_extension_all_match:
  assumes "list_all (\<lambda>f. pycontrol_match (name sp) ending (name f))
             (filter (\<lambda>f. f \<notin> set wl) (map fst (glob (star ext) sp d)))"
  shows "check_extension sp d wl (ext, ending) =
           (let found = filter (\<lambda>f. f \<notin> set wl) (map fst (glob (star ext) sp d));
                n = expected_number_of_pycontrol_files_per_extension ext
            in if length found \<noteq> n
               then Inl (WrongNumberOfFilesError (Expected_files_with_extension n ext (length found)))
               else Inr found)"
  using pycontrol_files_all_match[OF assms]
  by (simp add: check_extension_def Let_def)

text \<open>
  C5. Take a session whose path is valid and whose \<^verbatim>\<open>.pca\<close> files, the whitelisted ones
  apart, all match the required pattern. If there are not exactly two of them, the function
  raises \<^verbatim>\<open>WrongNumberOfFilesError\<close> with the expected count 2, the extension and the count
  found. If there are two, the \<^verbatim>\<open>.txt\<close> files all match and there is not exactly one of
  them, it raises the same error with the expected count 1 and the count found.
\<close>

theorem wrong_file_count:
  assumes v: "validate_session_path sp d subj = Inr True"
    and pca: "list_all (\<lambda>f. pycontrol_match (name sp) pca_ending (name f))
                (non_whitelisted sp d wl ''.pca'')"
  shows "(length (non_whitelisted sp d wl ''.pca'') \<noteq> 2 \<longrightarrow>
           validate_raw_behavioral_data_of_session sp d subj wl warn =
             ([], Inl (WrongNumberOfFilesError
                         (Expected_files_with_extension 2 ''.pca''
                            (length (non_whitelisted sp d wl ''.pca''))))))
       \<and> (length (non_whitelisted sp d wl ''.pca'') = 2
            \<and> list_all (\<lambda>f. pycontrol_match (name sp) txt_ending (name f))
                 (non_whitelisted sp d wl ''.txt'')
            \<and> length (non_whitelisted sp d wl ''.txt'') \<noteq> 1 \<longrightarrow>
           validate_raw_behavioral_data_of_session sp d subj wl warn =
             ([], Inl (WrongNumberOfFilesError
                         (Expected_files_with_extension 1 ''.txt''
                            (length (non_whitelisted sp d wl ''.txt''))))))"
proof -
  let ?wl = "find_whitelisted_files_in_root sp d wl"
  have p: "check_extension sp d ?wl (''.pca'', pca_ending) =
     (if length (non_whitelisted sp d wl ''.pca'') \<noteq> 2
      then Inl (WrongNumberOfFilesError
                  (Expected_files_with_extension 2 ''.pca'' (length (non_whitelisted sp d wl ''.pca''))))
      else Inr (non_whitelisted sp d wl ''.pca''))"
    using check_extension_all_match[of sp pca_ending ?wl "''.pca''" d] pca
    by (simp add: non_whitelisted_def expected_number_of_pycontrol_files_per_extension_def Let_def)
  have t: "list_all (\<lambda>f. pycontrol_match (name sp) txt_ending (name f)) (non_whitelisted sp d wl ''.txt'')
    \<Longrightarrow> check_extension sp d ?wl (''.txt'', txt_ending) =
     (if length (non_whitelisted sp d wl ''.txt'') \<noteq> 1
      then Inl (WrongNumberOfFilesError
                  (Expected_files_with_extension 1 ''.txt'' (length (non_whitelisted sp d wl ''.txt''))))
      else Inr (non_whitelisted sp d wl ''.txt''))"
    using check_extension_all_match[of sp txt_ending ?wl "''.txt''" d]
    by (simp add: non_whitelisted_def expected_number_of_pycontrol_files_per_extension_def Let_def)
  show ?thesis
    using v p t
    by (simp add: validate_raw_behavioral_data_of_session_def Let_def
                  pycontrol_ending_pattern_per_extension_def)
qed

text \<open>
  The session of the claim: one correctly named \<^verbatim>\<open>.pca\<close> file where two are expected. The
  error reports expected 2, found 1.
\<close>

theorem wrong_file_count_one_pca:
  "validate_session_path [''raw'', ''M016_2023_08_15_16_00'']
     (Some (Dir [(''M016_2023_08_15_16_00_MotSen1-X.pca'', File),
                 (''M016_2023_08_15_16_00.txt'', File)])) ''M016'' = Inr True
   \<and> non_whitelisted [''raw'', ''M016_2023_08_15_16_00'']
       (Some (Dir [(''M016_2023_08_15_16_00_MotSen1-X.pca'', File),
                   (''M016_2023_08_15_16_00.txt'', File)])) [] ''.pca''
       = [[''raw'', ''M016_2023_08_15_16_00'', ''M016_2023_08_15_16_00_MotSen1-X.pca'']]
   \<and> validate_raw_behavioral_data_of_session [''raw'', ''M016_2023_08_15_16_00'']
       (Some (Dir [(''M016_2023_08_15_16_00_MotSen1-X.pca'', File),
                   (''M016_2023_08_15_16_00.txt'', File)])) ''M016'' [] True
       = ([], Inl (WrongNumberOfFilesError (Expected_files_with_extension 2 ''.pca'' 1)))"
proof -
  let ?sp = "[''raw'', ''M016_2023_08_15_16_00'']"
  let ?d = "Some (Dir [(''M016_2023_08_15_16_00_MotSen1-X.pca'', File),
                       (''M016_2023_08_15_16_00.txt'', File)])"
  have v: "validate_session_path ?sp ?d ''M016'' = Inr True" by code_simp
  have n: "non_whitelisted ?sp ?d [] ''.pca''
             = [[''raw'', ''M016_2023_08_15_16_00'', ''M016_2023_08_15_16_00_MotSen1-X.pca'']]"
    by code_simp
  have m: "list_all (\<lambda>f. pycontrol_match (name ?sp) pca_ending (name f))
             (non_whitelisted ?sp ?d [] ''.pca'')"
    by code_simp
  from wrong_file_count[OF v m, of True] n v show ?thesis by simp
qed

text \<open>
  C8. Take a session whose path is valid and whose \<^verbatim>\<open>.pca\<close> and \<^verbatim>\<open>.txt\<close> checks pass with the
  files \<open>files\<close>. Without a \<^verbatim>\<open>run_task-task_files\<close> folder the function returns \<open>files\<close>,
  with one warning when the flag is set and none otherwise. With the folder it raises
  \<^verbatim>\<open>FileNotFoundError\<close> when no \<^verbatim>\<open>.py\<close> file is inside, \<^verbatim>\<open>ValueError\<close> when more than one
  is, and returns \<open>files\<close> followed by the \<^verbatim>\<open>.py\<close> file when there is exactly one.
\<close>

theorem task_folder_cases:
  assumes v: "validate_session_path sp d subj = Inr True"
    and f: "check_extensions sp d (find_whitelisted_files_in_root sp d wl)
              pycontrol_ending_pattern_per_extension = Inr files"
  shows "(child_node d pycontrol_py_foldername = None \<longrightarrow>
            validate_raw_behavioral_data_of_session sp d subj wl warn
              = (if warn then [No_PyControl_task_folder sp] else [], Inr files))
       \<and> (child_node d pycontrol_py_foldername \<noteq> None \<longrightarrow>
            (length (python_files_in_task_folder sp d) = 0 \<longrightarrow>
               validate_raw_behavioral_data_of_session sp d subj wl warn
                 = ([], Inl (FileNotFoundError (No_py_file_found sp))))
          \<and> (length (python_files_in_task_folder sp d) > 1 \<longrightarrow>
               validate_raw_behavioral_data_of_session sp d subj wl warn
                 = ([], Inl (ValueError (More_than_one_py_file sp))))
          \<and> (\<forall>py. python_files_in_task_folder sp d = [py] \<longrightarrow>
               validate_raw_behavioral_data_of_session sp d subj wl warn
                 = ([], Inr (files @ [py]))))"
  using v f
  by (auto simp: validate_raw_behavioral_data_of_session_def Let_def python_files_in_task_folder_def)

text \<open>
  A session with its two \<^verbatim>\<open>.pca\<close> files and its \<^verbatim>\<open>.txt\<close> file: without the task folder it
  passes with the advisory warning; with a task folder that holds two \<^verbatim>\<open>.py\<close> files it fails.
\<close>

theorem task_folder_missing_or_crowded:
  "validate_raw_behavioral_data_of_session [''raw'', ''M016_2023_08_15_16_00'']
     (Some (Dir [(''M016_2023_08_15_16_00_MotSen1-X.pca'', File),
                 (''M016_2023_08_15_16_00_MotSen1-Y.pca'', File),
                 (''M016_2023_08_15_16_00.txt'', File)])) ''M016'' [] True
   = ([No_PyControl_task_folder [''raw'', ''M016_2023_08_15_16_00'']],
      Inr [[''raw'', ''M016_2023_08_15_16_00'', ''M016_2023_08_15_16_00_MotSen1-X.pca''],
           [''raw'', ''M016_2023_08_15_16_00'', ''M016_2023_08_15_16_00_MotSen1-Y.pca''],
           [''raw'', ''M016_2023_08_15_16_00'', ''M016_2023_08_15_16_00.txt'']])
  \<and> validate_raw_behavioral_data_of_session [''raw'', ''M016_2023_08_15_16_00'']
     (Some (Dir [(''M016_2023_08_15_16_00_MotSen1-X.pca'', File),
                 (''M016_2023_08_15_16_00_MotSen1-Y.pca'', File),
                 (''M016_2023_08_15_16_00.txt'', File),
                 (''run_task-task_files'', Dir [(''a.py'', File), (''b.py'', File)])])) ''M016'' [] True
   = ([], Inl (ValueError (More_than_one_py_file [''raw'', ''M016_2023_08_15_16_00''])))"
proof -
  let ?sp = "[''raw'', ''M016_2023_08_15_16_00'']"
  let ?d = "Some (Dir [(''M016_2023_08_15_16_00_MotSen1-X.pca'', File),
                 (''M016_2023_08_15_16_00_MotSen1-Y.pca'', File),
                 (''M016_2023_08_15_16_00.txt'', File)])"
  let ?d2 = "Some (Dir [(''M016_2023_08_15_16_00_MotSen1-X.pca'', File),
                 (''M016_2023_08_15_16_00_MotSen1-Y.pca'', File),
                 (''M016_2023_08_15_16_00.txt'', File),
                 (''run_task-task_files'', Dir [(''a.py'', File), (''b.py'', File)])])"
  let ?files = "[[''raw'', ''M016_2023_08_15_16_00'', ''M016_2023_08_15_16_00_MotSen1-X.pca''],
           [''raw'', ''M016_2023_08_15_16_00'', ''M016_2023_08_15_16_00_MotSen1-Y.pca''],
           [''raw'', ''M016_2023_08_15_16_00'', ''M016_2023_08_15_16_00.txt'']]"
  have v: "validate_session_path ?sp ?d ''M016'' = Inr True" by code_simp
  have f: "check_extensions ?sp ?d (find_whitelisted_files_in_root ?sp ?d [])
              pycontrol_ending_pattern_per_extension = Inr ?files" by code_simp
  have n: "child_node ?d pycontrol_py_foldername = None" by code_simp
  have v2: "validate_session_path ?sp ?d2 ''M016'' = Inr True" by code_simp
  have f2: "check_extensions ?sp ?d2 (find_whitelisted_files_in_root ?sp ?d2 [])
              pycontrol_ending_pattern_per_extension = Inr ?files" by code_simp
  have n2: "child_node ?d2 pycontrol_py_foldername \<noteq> None" by code_simp
  have l2: "length (python_files_in_task_folder ?sp ?d2) > 1" by code_simp
  from task_folder_cases[OF v f, of True] n task_folder_cases[OF v2 f2, of True] n2 l2
  show ?thesis by simp
qed

subsection \<open>Recursive globbing\<close>

lemma rglob_node_set:
  "set (rglob_node m p nd) = {e \<in> set (rglob_node anything p nd). m (name (fst e))}"
proof (induction m p nd rule: rglob_node.induct)
  case (1 m p)
  then show ?case by simp
next
  case (2 m p es)
  show ?case
    using 2 by (auto simp: anything_def)
qed

lemma rglob_set:
  "set (rglob m p d) = {e \<in> set (rglob anything p d). m (name (fst e))}"
  using rglob_node_set[of m p] by (cases d) (auto simp: rglob_def)

subsection \<open>Probe folders\<close>
















subsection \<open>Recording data outside the recording folders\<close>

lemma not_digit_g: "\<not> is_digit (CHR ''g'')"
  by (simp add: is_digit_def)

lemma star_g_any_gid_digit:
  assumes s: "star_g_any n" and g: "extract_gid n = Inr gid"
  shows "is_digit (last n)"
proof -
  from g obtain g0 where "gid_search n = Some g0"
    by (auto simp: extract_gid_def split: option.splits)
  from gid_search_suffix[OF this] obtain pre t where n: "n = pre @ t" and t: "gid_match_here t"
    by blast
  from gid_match_here_cases[OF t] obtain d where d: "is_digit d"
    and c: "t = [CHR ''_'', CHR ''g'', d] \<or> t = [CHR ''_'', CHR ''g'', d, newline]" by blast
  from c show ?thesis
  proof
    assume "t = [CHR ''_'', CHR ''g'', d]"
    with n d show ?thesis by simp
  next
    assume "t = [CHR ''_'', CHR ''g'', d, newline]"
    with n s have "d = CHR ''g''" by (simp add: star_g_any_def)
    with d not_digit_g show ?thesis by simp
  qed
qed

lemma validate_raw_ephys_recording_gid:
  "validate_raw_ephys_recording re gp d allowed = Inr b \<Longrightarrow> \<exists>g. extract_gid (name gp) = Inr g"
  by (auto simp: validate_raw_ephys_recording_def split: sum.splits)

lemma validate_recordings_gid:
  "validate_recordings re allowed recs = Inr u \<Longrightarrow>
     \<forall>r \<in> set recs. \<exists>g. extract_gid (name (fst r)) = Inr g"
proof (induction recs)
  case Nil
  then show ?case by simp
next
  case (Cons r rs)
  from Cons.prems obtain b where
    1: "validate_raw_ephys_recording re (fst r) (Some (snd r)) allowed = Inr b"
    and 2: "validate_recordings re allowed rs = Inr u"
    by (auto split: sum.splits)
  from validate_raw_ephys_recording_gid[OF 1] Cons.IH[OF 2] show ?case by simp
qed

lemma glob_name: "r \<in> set (glob m p d) \<Longrightarrow> m (name (fst r))"
  by (auto simp: glob_def)

lemma find_Some_ex: "x \<in> set xs \<Longrightarrow> P x \<Longrightarrow> \<exists>y. find P xs = Some y"
  by (cases "find P xs") (auto simp: find_None_iff)

text \<open>
  C6. Whenever an entry of the session tree whose name ends in \<open>.lf.meta\<close>, \<open>.lf.bin\<close>,
  \<open>.ap.meta\<close> or \<open>.ap.bin\<close> lies in none of the discovered folders named \<^verbatim>\<open>*_g{digit}\<close>,
  \<open>validate_raw_ephys_data_of_session\<close> raises an error, whatever the regular expression
  engine, the subject name and the allowed extensions. The entry may be a file or a
  directory; the claim speaks of files. With no discovered folder, any such entry is an
  error.
\<close>

theorem stray_recording_data_raises:
  assumes stray: "stray_recording_data sp d"
  shows "\<exists>e. snd (validate_raw_ephys_data_of_session re sp d subj allowed) = Inl e"
proof (cases "validate_session_path sp d subj")
  case (Inl e)
  then show ?thesis by (simp add: validate_raw_ephys_data_of_session_def)
next
  case (Inr b)
  let ?recs = "glob star_g_any sp d"
  show ?thesis
  proof (cases "validate_recordings re allowed ?recs")
    case (Inl e)
    with Inr show ?thesis
      by (simp add: validate_raw_ephys_data_of_session_def Let_def
                    find_spikeglx_recording_folders_in_session_def)
  next
    case (Inr u)
    from stray obtain f ending where
      f: "f \<in> set (rglob anything sp d)" and
      en: "ending \<in> set spikeglx_endings" and
      suf: "endswith (name (fst f)) ending" and
      out: "\<forall>r \<in> set ?recs. \<not> (is_digit (last (name (fst r))) \<and> is_relative_to (fst f) (fst r))"
      by (auto simp: stray_recording_data_def list_ex_iff)
    have dig: "\<forall>r \<in> set ?recs. is_digit (last (name (fst r)))"
    proof
      fix r assume r: "r \<in> set ?recs"
      from validate_recordings_gid[OF Inr] r obtain g where "extract_gid (name (fst r)) = Inr g"
        by blast
      with glob_name[OF r] show "is_digit (last (name (fst r)))"
        by (rule star_g_any_gid_digit)
    qed
    with out have nk: "\<not> in_known_recording (map fst ?recs) (fst f)"
      by (auto simp: in_known_recording_def list_ex_iff)
    from f suf have "f \<in> set (rglob (star ending) sp d)"
      by (subst rglob_set) (simp add: star_def)
    with en have "fst f \<in> set (spikeglx_filepaths sp d)"
      by (auto simp: spikeglx_filepaths_def)
    from find_Some_ex[OF this, of "\<lambda>f. \<not> in_known_recording (map fst ?recs) f"] nk
    obtain y where "find (\<lambda>f. \<not> in_known_recording (map fst ?recs) f) (spikeglx_filepaths sp d) = Some y"
      by blast
    with Inr \<open>validate_session_path sp d subj = Inr b\<close> show ?thesis
      by (simp add: validate_raw_ephys_data_of_session_def Let_def
                    find_spikeglx_recording_folders_in_session_def)
  qed
qed

text \<open>
  A session without a recording folder and with a recording file in a subfolder: no
  folder is discovered, and the call raises for that file.
\<close>

theorem stray_recording_data_no_folders:
  "glob star_g_any [''raw'', ''M016_2023_08_15_16_00'']
     (Some (Dir [(''notes'', Dir [(''x.ap.bin'', File)])])) = []
   \<and> stray_recording_data [''raw'', ''M016_2023_08_15_16_00'']
        (Some (Dir [(''notes'', Dir [(''x.ap.bin'', File)])]))
   \<and> (\<exists>e. snd (validate_raw_ephys_data_of_session re_match_plain
                  [''raw'', ''M016_2023_08_15_16_00'']
                  (Some (Dir [(''notes'', Dir [(''x.ap.bin'', File)])])) ''M016'' []) = Inl e)
   \<and> validate_raw_ephys_data_of_session re_match_plain [''raw'', ''M016_2023_08_15_16_00'']
        (Some (Dir [(''notes'', Dir [(''x.ap.bin'', File)])])) ''M016'' []
       = ([], Inl (ValueError (Not_in_any_known_recording_folder
                                 [''raw'', ''M016_2023_08_15_16_00'', ''notes'', ''x.ap.bin''])))"
proof -
  let ?sp = "[''raw'', ''M016_2023_08_15_16_00'']"
  let ?d = "Some (Dir [(''notes'', Dir [(''x.ap.bin'', File)])])"
  have g: "glob star_g_any ?sp ?d = []" by code_simp
  have s: "stray_recording_data ?sp ?d" by code_simp
  have v: "validate_raw_ephys_data_of_session re_match_plain ?sp ?d ''M016'' []
       = ([], Inl (ValueError (Not_in_any_known_recording_folder
                                 [''raw'', ''M016_2023_08_15_16_00'', ''notes'', ''x.ap.bin''])))"
    by code_simp
  from stray_recording_data_raises[OF s, of re_match_plain "''M016''" "[]"] g s v show ?thesis by blast
qed

subsection \<open>Misplaced videos\<close>

text \<open>
  C4, amended. Whenever an entry of the session tree, file or directory, whose name ends
  in \<open>.avi\<close> or is \<open>metadata.csv\<close> lies outside the expected video folder, the function
  raises an error, whether or not that folder exists. When the session path is valid,
  the folder does not exist and there is no such entry, the function returns the empty
  list, with one warning when the flag is set and none otherwise.
\<close>

theorem misplaced_video_data_raises:
  "(misplaced_video_data sp d \<longrightarrow>
      (\<exists>e. snd (validate_raw_videos_of_session sp d subj warn) = Inl e))
   \<and> (validate_session_path sp d subj = Inr True
        \<and> child_node d (name sp @ ''_cameras'') = None
        \<and> \<not> misplaced_video_data sp d \<longrightarrow>
      validate_raw_videos_of_session sp d subj warn
        = (if warn then [No_video_folder sp] else [], Inr []))"
proof (intro conjI impI)
  let ?vp = "sp @ [name sp @ ''_cameras'']"
  let ?avi = "map fst (rglob (star video_extension) sp d)"
  let ?meta = "map fst (rglob (\<lambda>n. n = ''metadata.csv'') sp d)"
  assume m: "misplaced_video_data sp d"
  then obtain f where f: "f \<in> set (rglob anything sp d)"
    and k: "endswith (name (fst f)) ''.avi'' \<or> name (fst f) = ''metadata.csv''"
    and o: "\<not> is_relative_to (fst f) ?vp"
    by (auto simp: misplaced_video_data_def list_ex_iff)
  have ex: "(\<exists>y. find (\<lambda>p. \<not> is_relative_to p ?vp) ?avi = Some y)
          \<or> (\<exists>y. find (\<lambda>p. \<not> is_relative_to p ?vp) ?meta = Some y)"
  proof (cases "endswith (name (fst f)) ''.avi''")
    case True
    with f have "f \<in> set (rglob (star video_extension) sp d)"
      by (subst rglob_set) (simp add: star_def video_extension_def)
    then have "fst f \<in> set ?avi" by simp
    from find_Some_ex[OF this, of "\<lambda>p. \<not> is_relative_to p ?vp"] o show ?thesis by blast
  next
    case False
    with k have "name (fst f) = ''metadata.csv''" by simp
    with f have "f \<in> set (rglob (\<lambda>n. n = ''metadata.csv'') sp d)"
      by (subst rglob_set) simp
    then have "fst f \<in> set ?meta" by simp
    from find_Some_ex[OF this, of "\<lambda>p. \<not> is_relative_to p ?vp"] o show ?thesis by blast
  qed
  show "\<exists>e. snd (validate_raw_videos_of_session sp d subj warn) = Inl e"
  proof (cases "validate_session_path sp d subj")
    case (Inl e)
    then show ?thesis by (simp add: validate_raw_videos_of_session_def)
  next
    case (Inr b)
    with ex show ?thesis
      by (auto simp: validate_raw_videos_of_session_def Let_def split: sum.splits option.splits)
  qed
next
  let ?vp = "sp @ [name sp @ ''_cameras'']"
  assume a: "validate_session_path sp d subj = Inr True
        \<and> child_node d (name sp @ ''_cameras'') = None
        \<and> \<not> misplaced_video_data sp d"
  then have nm: "\<forall>f \<in> set (rglob anything sp d).
        (endswith (name (fst f)) ''.avi'' \<or> name (fst f) = ''metadata.csv'') \<longrightarrow> is_relative_to (fst f) ?vp"
    by (auto simp: misplaced_video_data_def list_ex_iff)
  have a1: "\<forall>f \<in> set (rglob (star video_extension) sp d). is_relative_to (fst f) ?vp"
    using nm by (subst rglob_set) (simp add: star_def video_extension_def)
  have a2: "\<forall>f \<in> set (rglob (\<lambda>n. n = ''metadata.csv'') sp d). is_relative_to (fst f) ?vp"
    using nm by (subst rglob_set) simp
  have 1: "find (\<lambda>p. \<not> is_relative_to p ?vp) (map fst (rglob (star video_extension) sp d)) = None"
    using a1 by (auto simp: find_None_iff)
  have 2: "find (\<lambda>p. \<not> is_relative_to p ?vp) (map fst (rglob (\<lambda>n. n = ''metadata.csv'') sp d)) = None"
    using a2 by (auto simp: find_None_iff)
  from a 1 2 show "validate_raw_videos_of_session sp d subj warn
        = (if warn then [No_video_folder sp] else [], Inr [])"
    by (simp add: validate_raw_videos_of_session_def Let_def)
qed

text \<open>
  A session without a video folder: with a video file in a subfolder the call raises
  after the warning; without one it returns the empty list after the warning.
\<close>

theorem misplaced_video_data_example:
  "child_node (Some (Dir [(''notes'', Dir [(''x.avi'', File)])])) (''M016_2023_08_15_16_00'' @ ''_cameras'') = None
   \<and> misplaced_video_data [''raw'', ''M016_2023_08_15_16_00'']
        (Some (Dir [(''notes'', Dir [(''x.avi'', File)])]))
   \<and> (\<exists>e. snd (validate_raw_videos_of_session [''raw'', ''M016_2023_08_15_16_00'']
                  (Some (Dir [(''notes'', Dir [(''x.avi'', File)])])) ''M016'' True) = Inl e)
   \<and> validate_raw_videos_of_session [''raw'', ''M016_2023_08_15_16_00'']
        (Some (Dir [(''notes'', Dir [(''x.avi'', File)])])) ''M016'' True
       = ([No_video_folder [''raw'', ''M016_2023_08_15_16_00'']],
          Inl (ValueError (Unexpected_location ''.avi''
                 [''raw'', ''M016_2023_08_15_16_00'', ''notes'', ''x.avi'']
                 [''raw'', ''M016_2023_08_15_16_00'', ''M016_2023_08_15_16_00_cameras''])))
   \<and> validate_session_path [''raw'', ''M016_2023_08_15_16_00'']
        (Some (Dir [(''notes'', Dir [(''x.txt'', File)])])) ''M016'' = Inr True
   \<and> \<not> misplaced_video_data [''raw'', ''M016_2023_08_15_16_00'']
        (Some (Dir [(''notes'', Dir [(''x.txt'', File)])]))
   \<and> validate_raw_videos_of_session [''raw'', ''M016_2023_08_15_16_00'']
        (Some (Dir [(''notes'', Dir [(''x.txt'', File)])])) ''M016'' True
       = ([No_video_folder [''raw'', ''M016_2023_08_15_16_00'']], Inr [])"
proof -
  let ?sp = "[''raw'', ''M016_2023_08_15_16_00'']"
  let ?d = "Some (Dir [(''notes'', Dir [(''x.avi'', File)])])"
  let ?d2 = "Some (Dir [(''notes'', Dir [(''x.txt'', File)])])"
  have c: "child_node ?d (''M016_2023_08_15_16_00'' @ ''_cameras'') = None" by code_simp
  have m: "misplaced_video_data ?sp ?d" by code_simp
  have r: "validate_raw_videos_of_session ?sp ?d ''M016'' True
       = ([No_video_folder ?sp],
          Inl (ValueError (Unexpected_location ''.avi''
                 [''raw'', ''M016_2023_08_15_16_00'', ''notes'', ''x.avi'']
                 [''raw'', ''M016_2023_08_15_16_00'', ''M016_2023_08_15_16_00_cameras''])))"
    by code_simp
  have v2: "validate_session_path ?sp ?d2 ''M016'' = Inr True" by code_simp
  have c2: "child_node ?d2 (name ?sp @ ''_cameras'') = None" by code_simp
  have m2: "\<not> misplaced_video_data ?sp ?d2" by code_simp
  note 1 = misplaced_video_data_raises[of ?sp ?d "''M016''" True, THEN conjunct1, rule_format, OF m]
  note 2 = misplaced_video_data_raises[of ?sp ?d2 "''M016''" True, THEN conjunct2, rule_format, OF conjI[OF v2 conjI[OF c2 m2]]]
  from 1 2 c m r v2 m2 show ?thesis by simp
qed

text \<open>
  C4, as the code has it. The session path is valid, the video folder does not exist and
  the tree holds no file at all, only an empty directory named \<open>clips.avi\<close>. The recursive
  glob lists directories as well as files, and the function raises for the directory
  where the claim has it return the empty list.
\<close>

theorem avi_directory_is_refused:
  "validate_session_path [''raw'', ''M016_2023_08_15_16_00'']
     (Some (Dir [(''clips.avi'', Dir [])])) ''M016'' = Inr True
   \<and> child_node (Some (Dir [(''clips.avi'', Dir [])])) ''M016_2023_08_15_16_00_cameras'' = None
   \<and> filter (\<lambda>f. is_file (snd f))
        (rglob anything [''raw'', ''M016_2023_08_15_16_00''] (Some (Dir [(''clips.avi'', Dir [])]))) = []
   \<and> validate_raw_videos_of_session [''raw'', ''M016_2023_08_15_16_00'']
        (Some (Dir [(''clips.avi'', Dir [])])) ''M016'' True
       = ([No_video_folder [''raw'', ''M016_2023_08_15_16_00'']],
          Inl (ValueError (Unexpected_location ''.avi''
                 [''raw'', ''M016_2023_08_15_16_00'', ''clips.avi'']
                 [''raw'', ''M016_2023_08_15_16_00'', ''M016_2023_08_15_16_00_cameras''])))"
  by code_simp

end
